theory Spec2Isabelle
  imports Main "HOL-Library.AList" "HOL-Library.Char_ord" "HOL-Library.List_Lexorder"
begin

section \<open>Request payloads\<close>

text \<open>
  The \<^verbatim>\<open>data\<close> of a request has the TypeScript type \<^verbatim>\<open>unknown\<close>. It is modelled as a
  finite tree whose leaves are \<^verbatim>\<open>undefined\<close>, \<^verbatim>\<open>null\<close>, booleans, numbers, BigInts, strings
  and symbols, and whose nodes are arrays, plain objects and other objects.

  A number is \<^verbatim>\<open>NaN\<close>, \<^verbatim>\<open>Infinity\<close>, \<^verbatim>\<open>-Infinity\<close> or a finite number. A finite number is
  given by the text that \<^verbatim>\<open>Number::toString\<close> prints for it (\<^verbatim>\<open>1\<close>, \<^verbatim>\<open>0.5\<close>, \<^verbatim>\<open>-2.5e-7\<close>,
  \<^verbatim>\<open>12345678901234567000\<close>, \<^verbatim>\<open>1e+21\<close>): the shortest decimal that reads back as the number,
  so numbers that \<^verbatim>\<open>===\<close> tells apart have different texts. The text of \<^verbatim>\<open>-0\<close> is \<^verbatim>\<open>0\<close>, and
  \<^verbatim>\<open>-0 === 0\<close>: the model has one zero, as every operation of this file prints both alike.

  An object is the list of its own enumerable string-keyed properties in the order
  \<^verbatim>\<open>Object.keys\<close> enumerates them. A plain object inherits from \<^verbatim>\<open>Object.prototype\<close>. An
  object of another kind (a \<^verbatim>\<open>Date\<close>, a \<^verbatim>\<open>Map\<close>, a class instance, an object with no
  prototype) is given in addition by what \<^verbatim>\<open>String\<close> makes of it, a text or an exception.
  A symbol is given by its description. A hole of an array stands as an \<^verbatim>\<open>undefined\<close>
  element: the operations of this file treat the two alike.

  Strings are lists of code units up to \<open>0xFF\<close>. Function values are not in the model:
  \<^verbatim>\<open>JSON.stringify\<close> and \<^verbatim>\<open>String\<close> call the functions they find under \<^verbatim>\<open>toJSON\<close>, \<^verbatim>\<open>toString\<close>
  and \<^verbatim>\<open>valueOf\<close>, and what a call returns is not a matter of the payload's structure.
  Properties with accessors, proxies and cyclic structures are not in the model either.
\<close>

datatype num = NaN | PosInfinity | NegInfinity | Finite string

datatype js_exception = TypeError

datatype jsval =
    JUndefined
  | JNull
  | JBoolean bool
  | JNumber num
  | JBigInt int
  | JString string
  | JSymbol string
  | JArray "jsval list"
  | JObject "(string \<times> jsval) list"
  | JInstance "js_exception + string" "(string \<times> jsval) list"

subsection \<open>Number and string primitives of the runtime\<close>

definition digit_char :: "nat \<Rightarrow> char" where
  "digit_char n = ''0123456789'' ! n"

function string_of_nat :: "nat \<Rightarrow> string" where
  "string_of_nat n = (if n < 10 then [digit_char n] else string_of_nat (n div 10) @ [digit_char (n mod 10)])"
  by pat_completeness auto
termination
  by (relation "measure id") auto

declare string_of_nat.simps [simp del]

text \<open>The decimal text of an integer: what \<^verbatim>\<open>String\<close> prints for a BigInt.\<close>

definition string_of_int :: "int \<Rightarrow> string" where
  "string_of_int i = (if i < 0 then CHR ''-'' # string_of_nat (nat (- i)) else string_of_nat (nat i))"

text \<open>\<^verbatim>\<open>Number::toString\<close>\<close>

definition Number_toString :: "num \<Rightarrow> string" where
  "Number_toString n =
     (case n of
        NaN \<Rightarrow> ''NaN''
      | PosInfinity \<Rightarrow> ''Infinity''
      | NegInfinity \<Rightarrow> ''-Infinity''
      | Finite t \<Rightarrow> t)"

text \<open>
  \<^verbatim>\<open>String.prototype.toUpperCase\<close> on code units up to \<open>0xFF\<close>: the letters \<^verbatim>\<open>a\<close> to \<^verbatim>\<open>z\<close> and
  \<open>0xE0\<close> to \<open>0xFE\<close> except the division sign \<open>0xF7\<close> move down by \<open>0x20\<close>, the sharp s
  \<open>0xDF\<close> becomes \<^verbatim>\<open>SS\<close>, the others are kept. The upper-case forms of the micro sign
  \<open>0xB5\<close> and of \<open>0xFF\<close> lie beyond \<open>0xFF\<close>; the model keeps these two code units, and the
  statements that depend on it leave them out (\<open>upper_in_range\<close>).
\<close>

definition upper_char :: "char \<Rightarrow> string" where
  "upper_char c =
     (case map_of (zip ''abcdefghijklmnopqrstuvwxyz'' ''ABCDEFGHIJKLMNOPQRSTUVWXYZ''
                   @ zip [CHR 0xE0, CHR 0xE1, CHR 0xE2, CHR 0xE3, CHR 0xE4, CHR 0xE5, CHR 0xE6,
                          CHR 0xE7, CHR 0xE8, CHR 0xE9, CHR 0xEA, CHR 0xEB, CHR 0xEC, CHR 0xED,
                          CHR 0xEE, CHR 0xEF, CHR 0xF0, CHR 0xF1, CHR 0xF2, CHR 0xF3, CHR 0xF4,
                          CHR 0xF5, CHR 0xF6, CHR 0xF8, CHR 0xF9, CHR 0xFA, CHR 0xFB, CHR 0xFC,
                          CHR 0xFD, CHR 0xFE]
                         [CHR 0xC0, CHR 0xC1, CHR 0xC2, CHR 0xC3, CHR 0xC4, CHR 0xC5, CHR 0xC6,
                          CHR 0xC7, CHR 0xC8, CHR 0xC9, CHR 0xCA, CHR 0xCB, CHR 0xCC, CHR 0xCD,
                          CHR 0xCE, CHR 0xCF, CHR 0xD0, CHR 0xD1, CHR 0xD2, CHR 0xD3, CHR 0xD4,
                          CHR 0xD5, CHR 0xD6, CHR 0xD8, CHR 0xD9, CHR 0xDA, CHR 0xDB, CHR 0xDC,
                          CHR 0xDD, CHR 0xDE]) c of
        Some u \<Rightarrow> [u]
      | None \<Rightarrow> if c = CHR 0xDF then ''SS'' else [c])"

definition toUpperCase :: "string \<Rightarrow> string" where
  "toUpperCase s = concat (map upper_char s)"

definition upper_in_range :: "string \<Rightarrow> bool" where
  "upper_in_range s = (CHR 0xB5 \<notin> set s \<and> CHR 0xFF \<notin> set s)"

subsection \<open>Properties of an ordinary object\<close>

text \<open>
  A key is an integer index when it is the canonical decimal form of a number up to
  \<open>2\<^sup>3\<^sup>2 - 2\<close>. An ordinary object enumerates its integer indices first, in ascending
  numeric order, and then its other string keys in the order of their creation.
\<close>

definition is_digit :: "char \<Rightarrow> bool" where
  "is_digit c = (CHR ''0'' \<le> c \<and> c \<le> CHR ''9'')"

definition nat_of_digits :: "string \<Rightarrow> nat" where
  "nat_of_digits s = foldl (\<lambda>n c. 10 * n + (of_char c - 48)) 0 s"

definition is_index :: "string \<Rightarrow> bool" where
  "is_index k = (k \<noteq> [] \<and> list_all is_digit k \<and> length k \<le> 10
     \<and> string_of_nat (nat_of_digits k) = k \<and> nat_of_digits k \<le> 4294967294)"

text \<open>Where a new integer index goes: before the first larger index or the first other key.\<close>

fun insert_index :: "string \<Rightarrow> jsval \<Rightarrow> (string \<times> jsval) list \<Rightarrow> (string \<times> jsval) list" where
  "insert_index k v [] = [(k, v)]"
| "insert_index k v (p # ps) =
     (if is_index (fst p) \<and> nat_of_digits (fst p) < nat_of_digits k
      then p # insert_index k v ps
      else (k, v) # p # ps)"

text \<open>
  \<^verbatim>\<open>result[key] = value\<close> on an object that started as \<^verbatim>\<open>{}\<close>: the key \<^verbatim>\<open>__proto__\<close> reaches
  the inherited setter and creates no own property; an existing property keeps its place;
  a new one is created.
\<close>

definition obj_set :: "(string \<times> jsval) list \<Rightarrow> string \<Rightarrow> jsval \<Rightarrow> (string \<times> jsval) list" where
  "obj_set result key v =
     (if key = ''__proto__'' then result
      else if key \<in> fst ` set result then AList.update key v result
      else if is_index key then insert_index key v result
      else result @ [(key, v)])"

text \<open>\<^verbatim>\<open>record[key]\<close>: the property's value, \<^verbatim>\<open>undefined\<close> when there is none.\<close>

definition obj_get :: "(string \<times> jsval) list \<Rightarrow> string \<Rightarrow> jsval" where
  "obj_get record key = (case map_of record key of Some v \<Rightarrow> v | None \<Rightarrow> JUndefined)"

definition Object_keys :: "(string \<times> jsval) list \<Rightarrow> string list" where
  "Object_keys record = map fst record"

subsection \<open>sortObjectKeys\<close>

lemma obj_get_size: "size (obj_get ps k) \<le> size_list (size_prod (\<lambda>_. 0) size) ps"
proof (induction ps)
  case Nil
  show ?case by (simp add: obj_get_def)
next
  case (Cons p ps)
  then show ?case by (cases p) (auto simp: obj_get_def split: option.splits)
qed

text \<open>
  A value that is not an object is returned as it is; an array is mapped; every other
  object, plain or not, is rebuilt as a plain object from its own enumerable properties.
\<close>

function sortObjectKeys :: "jsval \<Rightarrow> jsval" where
  "sortObjectKeys JUndefined = JUndefined"
| "sortObjectKeys JNull = JNull"
| "sortObjectKeys (JBoolean b) = JBoolean b"
| "sortObjectKeys (JNumber n) = JNumber n"
| "sortObjectKeys (JBigInt n) = JBigInt n"
| "sortObjectKeys (JString s) = JString s"
| "sortObjectKeys (JSymbol d) = JSymbol d"
| "sortObjectKeys (JArray obj) = JArray (map (\<lambda>item. sortObjectKeys item) obj)"
| "sortObjectKeys (JObject record) =
     JObject (foldl (\<lambda>result key. obj_set result key (sortObjectKeys (obj_get record key)))
               [] (sort (Object_keys record)))"
| "sortObjectKeys (JInstance str record) =
     JObject (foldl (\<lambda>result key. obj_set result key (sortObjectKeys (obj_get record key)))
               [] (sort (Object_keys record)))"
  by pat_completeness auto
termination
  by (relation "measure size") (auto simp: obj_get_size less_Suc_eq_le size_list_estimation')

subsection \<open>JSON.stringify and String\<close>

text \<open>
  \<^verbatim>\<open>QuoteJSONString\<close>: the two-character escapes, \<^verbatim>\<open>\u00xx\<close> for the other control
  characters, every other code unit as it is.
\<close>

definition hex_char :: "nat \<Rightarrow> char" where
  "hex_char n = ''0123456789abcdef'' ! n"

definition escape_char :: "char \<Rightarrow> string" where
  "escape_char c =
     (if c = CHR 0x08 then [CHR 0x5C, CHR ''b'']
      else if c = CHR 0x09 then [CHR 0x5C, CHR ''t'']
      else if c = CHR 0x0A then [CHR 0x5C, CHR ''n'']
      else if c = CHR 0x0C then [CHR 0x5C, CHR ''f'']
      else if c = CHR 0x0D then [CHR 0x5C, CHR ''r'']
      else if c = CHR 0x22 then [CHR 0x5C, CHR 0x22]
      else if c = CHR 0x5C then [CHR 0x5C, CHR 0x5C]
      else if c < CHR 0x20
        then [CHR 0x5C, CHR ''u'', CHR ''0'', CHR ''0'',
              hex_char (of_char c div 16), hex_char (of_char c mod 16)]
      else [c])"

definition QuoteJSONString :: "string \<Rightarrow> string" where
  "QuoteJSONString s = CHR 0x22 # concat (map escape_char s) @ [CHR 0x22]"

fun join :: "string \<Rightarrow> string list \<Rightarrow> string" where
  "join sep [] = []"
| "join sep [x] = x"
| "join sep (x # y # ys) = x @ sep @ join sep (y # ys)"

text \<open>
  \<^verbatim>\<open>JSON.stringify(value)\<close> with no replacer and no indent. A property serializes to a
  string or to \<^verbatim>\<open>undefined\<close> (\<open>None\<close>), as \<^verbatim>\<open>undefined\<close> and symbols do; a
  BigInt raises a \<^verbatim>\<open>TypeError\<close>. A number that is not finite prints \<^verbatim>\<open>null\<close>. An array
  prints \<^verbatim>\<open>null\<close> for an element that serializes to \<^verbatim>\<open>undefined\<close>; an object leaves such a
  property out. \<^verbatim>\<open>generateKey\<close> serializes what \<^verbatim>\<open>sortObjectKeys\<close> returns, in which every
  object is plain (lemma \<open>sortObjectKeys_plain\<close>); the equation for other objects, needed
  for a total function, prints the own properties and knows no \<^verbatim>\<open>toJSON\<close>.
\<close>

fun SerializeJSONProperty :: "jsval \<Rightarrow> js_exception + string option"
  and SerializeJSONArray :: "jsval list \<Rightarrow> js_exception + string list"
  and SerializeJSONObject :: "(string \<times> jsval) list \<Rightarrow> js_exception + string list" where
  "SerializeJSONProperty JUndefined = Inr None"
| "SerializeJSONProperty JNull = Inr (Some ''null'')"
| "SerializeJSONProperty (JBoolean b) = Inr (Some (if b then ''true'' else ''false''))"
| "SerializeJSONProperty (JNumber n) =
     Inr (Some (case n of Finite t \<Rightarrow> t | _ \<Rightarrow> ''null''))"
| "SerializeJSONProperty (JBigInt n) = Inl TypeError"
| "SerializeJSONProperty (JString s) = Inr (Some (QuoteJSONString s))"
| "SerializeJSONProperty (JSymbol d) = Inr None"
| "SerializeJSONProperty (JArray xs) =
     (case SerializeJSONArray xs of
        Inl e \<Rightarrow> Inl e
      | Inr partial \<Rightarrow> Inr (Some (''['' @ join '','' partial @ '']'')))"
| "SerializeJSONProperty (JObject ps) =
     (case SerializeJSONObject ps of
        Inl e \<Rightarrow> Inl e
      | Inr partial \<Rightarrow> Inr (Some (''{'' @ join '','' partial @ ''}'')))"
| "SerializeJSONProperty (JInstance str ps) =
     (case SerializeJSONObject ps of
        Inl e \<Rightarrow> Inl e
      | Inr partial \<Rightarrow> Inr (Some (''{'' @ join '','' partial @ ''}'')))"
| "SerializeJSONArray [] = Inr []"
| "SerializeJSONArray (x # xs) =
     (case SerializeJSONProperty x of
        Inl e \<Rightarrow> Inl e
      | Inr strP \<Rightarrow>
          (case SerializeJSONArray xs of
             Inl e \<Rightarrow> Inl e
           | Inr partial \<Rightarrow> Inr ((case strP of None \<Rightarrow> ''null'' | Some s \<Rightarrow> s) # partial)))"
| "SerializeJSONObject [] = Inr []"
| "SerializeJSONObject (p # ps) =
     (case SerializeJSONProperty (snd p) of
        Inl e \<Rightarrow> Inl e
      | Inr strP \<Rightarrow>
          (case SerializeJSONObject ps of
             Inl e \<Rightarrow> Inl e
           | Inr partial \<Rightarrow>
               Inr ((case strP of None \<Rightarrow> [] | Some s \<Rightarrow> [QuoteJSONString (fst p) @ '':'' @ s])
                    @ partial)))"

definition JSON_stringify :: "jsval \<Rightarrow> js_exception + string option" where
  "JSON_stringify v = SerializeJSONProperty v"

text \<open>
  \<^verbatim>\<open>String(value)\<close>. A symbol gives \<^verbatim>\<open>Symbol(description)\<close>. An
  array joins its elements with commas: \<^verbatim>\<open>undefined\<close> and \<^verbatim>\<open>null\<close> elements as the empty
  string, a symbol element raises a \<^verbatim>\<open>TypeError\<close>, every other element as \<^verbatim>\<open>String\<close> makes
  it. A plain object is converted by its \<^verbatim>\<open>toString\<close> and then its \<^verbatim>\<open>valueOf\<close>: the
  inherited \<^verbatim>\<open>toString\<close> gives \<^verbatim>\<open>[object Object]\<close>; an own property of that name hides it,
  and since no property of the model is callable and the inherited \<^verbatim>\<open>valueOf\<close> returns the
  object itself, the conversion then raises a \<^verbatim>\<open>TypeError\<close>. An object of another kind
  gives what the payload says.
\<close>

fun is_symbol :: "jsval \<Rightarrow> bool" where
  "is_symbol (JSymbol d) = True"
| "is_symbol v = False"

fun ToString :: "jsval \<Rightarrow> js_exception + string"
  and Array_join :: "jsval list \<Rightarrow> js_exception + string list" where
  "ToString JUndefined = Inr ''undefined''"
| "ToString JNull = Inr ''null''"
| "ToString (JBoolean b) = Inr (if b then ''true'' else ''false'')"
| "ToString (JNumber n) = Inr (Number_toString n)"
| "ToString (JBigInt n) = Inr (string_of_int n)"
| "ToString (JString s) = Inr s"
| "ToString (JSymbol d) = Inr (''Symbol('' @ d @ '')'')"
| "ToString (JArray xs) =
     (case Array_join xs of Inl e \<Rightarrow> Inl e | Inr parts \<Rightarrow> Inr (join '','' parts))"
| "ToString (JObject ps) =
     (if ''toString'' \<in> set (Object_keys ps) then Inl TypeError else Inr ''[object Object]'')"
| "ToString (JInstance str ps) = str"
| "Array_join [] = Inr []"
| "Array_join (x # xs) =
     (case (if x = JUndefined \<or> x = JNull then Inr []
            else if is_symbol x then Inl TypeError else ToString x) of
        Inl e \<Rightarrow> Inl e
      | Inr s \<Rightarrow> (case Array_join xs of Inl e \<Rightarrow> Inl e | Inr parts \<Rightarrow> Inr (s # parts)))"

text \<open>A value substituted into a template literal.\<close>

definition template :: "string option \<Rightarrow> string" where
  "template v = (case v of None \<Rightarrow> ''undefined'' | Some s \<Rightarrow> s)"

subsection \<open>generateKey\<close>

text \<open>
  \<open>dataKey_of data\<close> is the local variable \<^verbatim>\<open>dataKey\<close> when \<^verbatim>\<open>generateKey\<close> returns: the
  \<^verbatim>\<open>try\<close> block's value, or what the \<^verbatim>\<open>catch\<close> block computes when the \<^verbatim>\<open>try\<close> block
  raised. An exception of the \<^verbatim>\<open>catch\<close> block leaves \<^verbatim>\<open>generateKey\<close>.
\<close>

definition dataKey_of :: "jsval \<Rightarrow> js_exception + string" where
  "dataKey_of data =
     (if data \<noteq> JUndefined
      then (case JSON_stringify (sortObjectKeys data) of
              Inr dataKey \<Rightarrow> Inr (template dataKey)
            | Inl e \<Rightarrow> ToString data)
      else Inr [])"

definition generateKey :: "string \<Rightarrow> string \<Rightarrow> jsval \<Rightarrow> js_exception + string" where
  "generateKey method url data =
     (case dataKey_of data of
        Inl e \<Rightarrow> Inl e
      | Inr dataKey \<Rightarrow> Inr (toUpperCase method @ '':'' @ url @ '':'' @ dataKey))"

section \<open>The deduplicator\<close>

text \<open>
  Times are the integer milliseconds of \<^verbatim>\<open>Date.now()\<close>; each operation takes the reading
  it makes as an argument. Durations (\<^verbatim>\<open>blockAfterComplete\<close>, \<^verbatim>\<open>maxAge\<close>,
  \<^verbatim>\<open>requestTimeout\<close>) are integers too; fractional and non-finite numbers are not in the
  model. A \<^verbatim>\<open>Map\<close> is the list of its entries in insertion
  order: \<^verbatim>\<open>get\<close> is \<open>map_of\<close>, \<^verbatim>\<open>set\<close> is \<open>AList.update\<close> (an existing key keeps its
  place, a new one goes last), \<^verbatim>\<open>delete\<close> is \<open>AList.delete\<close>, \<^verbatim>\<open>size\<close> is \<open>length\<close>.
  A promise is named by a number.
\<close>

record ExecuteOptions =
  "method" :: string
  url :: string
  data :: jsval
  blockAfterComplete :: "int option"

datatype reason = in_progress | recently_completed

record PendingEntry =
  promise :: nat
  startTime :: int

record RequestDeduplicator =
  pending :: "(string \<times> PendingEntry) list"
  completed :: "(string \<times> int) list"
  cleanupIntervalId :: "nat option"
  requestTimeout :: int

definition new_RequestDeduplicator :: "int option \<Rightarrow> RequestDeduplicator" where
  "new_RequestDeduplicator options =
     \<lparr>pending = [], completed = [], cleanupIntervalId = None,
      requestTimeout = (case options of Some t \<Rightarrow> t | None \<Rightarrow> 30000)\<rparr>"

text \<open>
  The truth value of an optional number: \<^verbatim>\<open>undefined\<close> and \<^verbatim>\<open>0\<close> are falsy.
\<close>

definition truthy :: "int option \<Rightarrow> bool" where
  "truthy x = (case x of None \<Rightarrow> False | Some n \<Rightarrow> n \<noteq> 0)"

text \<open>\<^verbatim>\<open>options.blockAfterComplete && options.blockAfterComplete > 0\<close>\<close>

definition blocks :: "int option \<Rightarrow> bool" where
  "blocks b = (truthy b \<and> (case b of Some n \<Rightarrow> n > 0 | None \<Rightarrow> False))"

subsection \<open>Operations in flight\<close>

text \<open>
  The caller's \<^verbatim>\<open>requestFn\<close> either throws when it is called or returns a promise that
  settles later. The call that launched it chains its callbacks on that promise; the
  chained promise is what the pending entry holds and what the callers get. \<open>Finally key\<close>
  is the callback of \<^verbatim>\<open>deduplicate\<close>, \<open>ThenCatch key b\<close> the pair of callbacks of
  \<^verbatim>\<open>execute\<close> with the \<^verbatim>\<open>blockAfterComplete\<close> of its options.
\<close>

datatype 'e requestFn = Throws 'e | Returns

datatype ('v, 'e) outcome = Fulfilled 'v | Rejected 'e

datatype callbacks = Finally string | ThenCatch string "int option"

fun callbacks_key :: "callbacks \<Rightarrow> string" where
  "callbacks_key (Finally key) = key"
| "callbacks_key (ThenCatch key b) = key"

text \<open>
  What an \<^verbatim>\<open>async\<close> method returns: a promise rejected on the spot, or one that follows
  the promise of the given number. It is rejected on the spot with the deduplicator's own
  \<^verbatim>\<open>DuplicateRequestError\<close>, with the value \<open>e\<close> that \<^verbatim>\<open>requestFn\<close> threw (\<open>Raised e\<close>), or
  with an exception that left \<^verbatim>\<open>generateKey\<close> (\<open>Uncaught x\<close>). The constructors tell the
  origins apart; they are not wrappers around the value.
\<close>

datatype 'e failure = DuplicateRequestError reason | Raised 'e | Uncaught js_exception

datatype 'e returned = Rejects "'e failure" | Promise nat

record ('v, 'e) world =
  dedup :: RequestDeduplicator
  inflight :: "(nat \<times> callbacks) list"
  settled :: "(nat \<times> ('v, 'e) outcome) list"
  nextPromise :: nat
  invocations :: "string list"
  intervals :: "(nat \<times> int) list"

definition new_world :: "int option \<Rightarrow> ('v, 'e) world" where
  "new_world options =
     \<lparr>dedup = new_RequestDeduplicator options, inflight = [], settled = [],
      nextPromise = 0, invocations = [], intervals = []\<rparr>"

text \<open>
  Calling \<^verbatim>\<open>requestFn()\<close> and chaining the callbacks \<open>cb\<close>: the invocation is logged under
  the key; a returned promise is in flight under a fresh number.
\<close>

definition launch :: "string \<Rightarrow> callbacks \<Rightarrow> int \<Rightarrow> ('v, 'e) world \<Rightarrow> ('v, 'e) world" where
  "launch key cb start w =
     w\<lparr>dedup := (dedup w)\<lparr>pending :=
          AList.update key \<lparr>promise = nextPromise w, startTime = start\<rparr> (pending (dedup w))\<rparr>,
       inflight := inflight w @ [(nextPromise w, cb)],
       nextPromise := Suc (nextPromise w),
       invocations := invocations w @ [key]\<rparr>"

definition invoke :: "string \<Rightarrow> callbacks \<Rightarrow> 'e requestFn \<Rightarrow> int \<Rightarrow> ('v, 'e) world
    \<Rightarrow> 'e returned \<times> ('v, 'e) world" where
  "invoke key cb requestFn start w =
     (case requestFn of
        Throws e \<Rightarrow> (Rejects (Raised e), w\<lparr>invocations := invocations w @ [key]\<rparr>)
      | Returns \<Rightarrow> (Promise (nextPromise w), launch key cb start w))"

subsection \<open>deduplicate and execute\<close>

definition deduplicate :: "string \<Rightarrow> 'e requestFn \<Rightarrow> int \<Rightarrow> ('v, 'e) world
    \<Rightarrow> 'e returned \<times> ('v, 'e) world" where
  "deduplicate key requestFn now w =
     (case map_of (pending (dedup w)) key of
        Some existing \<Rightarrow> (Promise (promise existing), w)
      | None \<Rightarrow> invoke key (Finally key) requestFn now w)"

text \<open>\<^verbatim>\<open>completedTime && now - completedTime < options.blockAfterComplete\<close>\<close>

definition recently :: "int option \<Rightarrow> int \<Rightarrow> int option \<Rightarrow> bool" where
  "recently completedTime now b =
     (truthy completedTime
      \<and> (case completedTime of
           Some t \<Rightarrow> (case b of Some n \<Rightarrow> now - t < n | None \<Rightarrow> False)
         | None \<Rightarrow> False))"

definition execute :: "ExecuteOptions \<Rightarrow> 'e requestFn \<Rightarrow> int \<Rightarrow> ('v, 'e) world
    \<Rightarrow> 'e returned \<times> ('v, 'e) world" where
  "execute options requestFn now w =
     (case generateKey (method options) (url options) (data options) of
        Inl x \<Rightarrow> (Rejects (Uncaught x), w)
      | Inr key \<Rightarrow>
          if blocks (blockAfterComplete options)
             \<and> recently (map_of (completed (dedup w)) key) now (blockAfterComplete options)
          then (Rejects (DuplicateRequestError recently_completed), w)
          else (case map_of (pending (dedup w)) key of
                  Some existing \<Rightarrow> (Promise (promise existing), w)
                | None \<Rightarrow>
                    invoke key (ThenCatch key (blockAfterComplete options)) requestFn now w))"

text \<open>What \<^verbatim>\<open>generateKey\<close> does for the options of an \<^verbatim>\<open>execute\<close> call.\<close>

definition key_of :: "ExecuteOptions \<Rightarrow> js_exception + string" where
  "key_of options = generateKey (method options) (url options) (data options)"

subsection \<open>Settlement\<close>

text \<open>
  The callbacks run when the operation's promise settles, at time \<open>now\<close>; they return the
  deduplicator as they leave it and the outcome of the chained promise.
\<close>

fun run_callbacks :: "callbacks \<Rightarrow> ('v, 'e) outcome \<Rightarrow> int \<Rightarrow> RequestDeduplicator
    \<Rightarrow> RequestDeduplicator \<times> ('v, 'e) outcome" where
  "run_callbacks (Finally key) out now d =
     (d\<lparr>pending := AList.delete key (pending d)\<rparr>, out)"
| "run_callbacks (ThenCatch key b) (Fulfilled result) now d =
     (let d1 = d\<lparr>pending := AList.delete key (pending d)\<rparr>;
          d2 = (if blocks b then d1\<lparr>completed := AList.update key now (completed d1)\<rparr> else d1)
      in (d2, Fulfilled result))"
| "run_callbacks (ThenCatch key b) (Rejected error) now d =
     (d\<lparr>pending := AList.delete key (pending d)\<rparr>, Rejected error)"

text \<open>A promise settles once: settling one that is not in flight changes nothing.\<close>

definition settle :: "nat \<Rightarrow> ('v, 'e) outcome \<Rightarrow> int \<Rightarrow> ('v, 'e) world \<Rightarrow> ('v, 'e) world" where
  "settle p out now w =
     (case map_of (inflight w) p of
        None \<Rightarrow> w
      | Some cb \<Rightarrow>
          (let (d, out') = run_callbacks cb out now (dedup w)
           in w\<lparr>dedup := d, inflight := AList.delete p (inflight w),
                settled := settled w @ [(p, out')]\<rparr>))"

text \<open>The outcome of a promise, once it has one; every holder of the promise observes it.\<close>

definition outcome_of :: "nat \<Rightarrow> ('v, 'e) world \<Rightarrow> ('v, 'e) outcome option" where
  "outcome_of p w = map_of (settled w) p"

subsection \<open>cleanup, the timer, getStats and clear\<close>

definition cleanup :: "int option \<Rightarrow> int \<Rightarrow> RequestDeduplicator \<Rightarrow> RequestDeduplicator" where
  "cleanup maxAge_opt now d =
     (let maxAge = (case maxAge_opt of Some a \<Rightarrow> a | None \<Rightarrow> 10000);
          d1 = foldl (\<lambda>d (key, completedTime).
                  if now - completedTime > maxAge
                  then d\<lparr>completed := AList.delete key (completed d)\<rparr> else d)
                d (completed d)
      in foldl (\<lambda>d (key, entry).
                  if now - startTime entry > requestTimeout d
                  then d\<lparr>pending := AList.delete key (pending d)\<rparr> else d)
           d1 (pending d1))"

text \<open>
  \<open>timer\<close> is the handle \<^verbatim>\<open>setInterval\<close> returns (an object, or a number above zero: never
  falsy). The second component of the state lists the interval timers that are running,
  each with its period; a tick of the timer calls \<^verbatim>\<open>cleanup()\<close> with no argument.
\<close>

definition autoCleanup_tick :: "int \<Rightarrow> RequestDeduplicator \<Rightarrow> RequestDeduplicator" where
  "autoCleanup_tick now d = cleanup None now d"

definition startAutoCleanup :: "int option \<Rightarrow> nat \<Rightarrow> RequestDeduplicator \<times> (nat \<times> int) list
    \<Rightarrow> RequestDeduplicator \<times> (nat \<times> int) list" where
  "startAutoCleanup intervalMs_opt timer st =
     (let intervalMs = (case intervalMs_opt of Some i \<Rightarrow> i | None \<Rightarrow> 60000) in
      case cleanupIntervalId (fst st) of
        Some t \<Rightarrow> st
      | None \<Rightarrow> ((fst st)\<lparr>cleanupIntervalId := Some timer\<rparr>, snd st @ [(timer, intervalMs)]))"

definition stopAutoCleanup :: "RequestDeduplicator \<times> (nat \<times> int) list
    \<Rightarrow> RequestDeduplicator \<times> (nat \<times> int) list" where
  "stopAutoCleanup st =
     (case cleanupIntervalId (fst st) of
        Some t \<Rightarrow> ((fst st)\<lparr>cleanupIntervalId := None\<rparr>, AList.delete t (snd st))
      | None \<Rightarrow> st)"

record Stats =
  pendingCount :: nat
  completedCount :: nat

definition getStats :: "RequestDeduplicator \<Rightarrow> Stats" where
  "getStats d = \<lparr>pendingCount = length (pending d), completedCount = length (completed d)\<rparr>"

definition clear :: "RequestDeduplicator \<Rightarrow> RequestDeduplicator" where
  "clear d = d\<lparr>pending := [], completed := []\<rparr>"

subsection \<open>Operations that call the deduplicator\<close>

text \<open>
  Both methods call \<^verbatim>\<open>requestFn()\<close> after they have looked for a pending entry and before
  they set their own. A \<^verbatim>\<open>requestFn\<close> that holds the deduplicator can call its methods in
  between. Such an operation is given by the calls it makes, in order, and by how it ends;
  the operations of those calls may make calls of their own. \<open>Operation [] requestFn\<close> is
  the operation that makes none. The log of invocations lists an operation when it ends,
  so that a nested operation comes before the one that called it.
\<close>

datatype 'e operation = Operation "'e call list" "'e requestFn"
  and 'e call =
    CallDeduplicate string "'e operation" int
  | CallExecute ExecuteOptions "'e operation" int
  | CallCleanup "int option" int
  | CallClear

fun deduplicate_reentering :: "string \<Rightarrow> 'e operation \<Rightarrow> int \<Rightarrow> ('v, 'e) world
      \<Rightarrow> 'e returned \<times> ('v, 'e) world"
  and execute_reentering :: "ExecuteOptions \<Rightarrow> 'e operation \<Rightarrow> int \<Rightarrow> ('v, 'e) world
      \<Rightarrow> 'e returned \<times> ('v, 'e) world"
  and perform :: "'e call \<Rightarrow> ('v, 'e) world \<Rightarrow> ('v, 'e) world"
  and perform_all :: "'e call list \<Rightarrow> ('v, 'e) world \<Rightarrow> ('v, 'e) world" where
  "deduplicate_reentering key (Operation calls requestFn) now w =
     (case map_of (pending (dedup w)) key of
        Some existing \<Rightarrow> (Promise (promise existing), w)
      | None \<Rightarrow> invoke key (Finally key) requestFn now (perform_all calls w))"
| "execute_reentering options (Operation calls requestFn) now w =
     (case generateKey (method options) (url options) (data options) of
        Inl x \<Rightarrow> (Rejects (Uncaught x), w)
      | Inr key \<Rightarrow>
          if blocks (blockAfterComplete options)
             \<and> recently (map_of (completed (dedup w)) key) now (blockAfterComplete options)
          then (Rejects (DuplicateRequestError recently_completed), w)
          else (case map_of (pending (dedup w)) key of
                  Some existing \<Rightarrow> (Promise (promise existing), w)
                | None \<Rightarrow>
                    invoke key (ThenCatch key (blockAfterComplete options)) requestFn now
                      (perform_all calls w)))"
| "perform (CallDeduplicate key operation now) w = snd (deduplicate_reentering key operation now w)"
| "perform (CallExecute options operation now) w = snd (execute_reentering options operation now w)"
| "perform (CallCleanup maxAge now) w = w\<lparr>dedup := cleanup maxAge now (dedup w)\<rparr>"
| "perform CallClear w = w\<lparr>dedup := clear (dedup w)\<rparr>"
| "perform_all [] w = w"
| "perform_all (c # cs) w = perform_all cs (perform c w)"

section \<open>Interleavings of calls and settlements\<close>

text \<open>
  Calls run to completion before anything else happens (neither method awaits); the
  callbacks of a settled operation and the tick of a timer run between calls. The events
  are the calls of \<^verbatim>\<open>deduplicate\<close> and \<^verbatim>\<open>execute\<close>, with an operation that leaves the
  deduplicator alone or with one that calls it, the settlement of an operation in flight,
  the calls of \<^verbatim>\<open>cleanup\<close>, \<^verbatim>\<open>clear\<close>, \<^verbatim>\<open>startAutoCleanup\<close> and \<^verbatim>\<open>stopAutoCleanup\<close>, and the tick
  of an interval timer, which does something when that timer is running.
\<close>

datatype ('v, 'e) event =
    Deduplicate string "'e requestFn" int
  | Execute ExecuteOptions "'e requestFn" int
  | Settle nat "('v, 'e) outcome" int
  | DeduplicateReentering string "'e operation" int
  | ExecuteReentering ExecuteOptions "'e operation" int
  | Cleanup "int option" int
  | Clear
  | StartAutoCleanup "int option" nat
  | StopAutoCleanup
  | Tick nat int

fun step :: "('v, 'e) world \<Rightarrow> ('v, 'e) event \<Rightarrow> ('v, 'e) world" where
  "step w (Deduplicate key requestFn now) = snd (deduplicate key requestFn now w)"
| "step w (Execute options requestFn now) = snd (execute options requestFn now w)"
| "step w (Settle p out now) = settle p out now w"
| "step w (DeduplicateReentering key operation now) = snd (deduplicate_reentering key operation now w)"
| "step w (ExecuteReentering options operation now) = snd (execute_reentering options operation now w)"
| "step w (Cleanup maxAge now) = w\<lparr>dedup := cleanup maxAge now (dedup w)\<rparr>"
| "step w Clear = w\<lparr>dedup := clear (dedup w)\<rparr>"
| "step w (StartAutoCleanup intervalMs timer) =
     w\<lparr>dedup := fst (startAutoCleanup intervalMs timer (dedup w, intervals w)),
       intervals := snd (startAutoCleanup intervalMs timer (dedup w, intervals w))\<rparr>"
| "step w StopAutoCleanup =
     w\<lparr>dedup := fst (stopAutoCleanup (dedup w, intervals w)),
       intervals := snd (stopAutoCleanup (dedup w, intervals w))\<rparr>"
| "step w (Tick timer now) =
     (if timer \<in> fst ` set (intervals w) then w\<lparr>dedup := autoCleanup_tick now (dedup w)\<rparr> else w)"

definition run :: "int option \<Rightarrow> ('v, 'e) event list \<Rightarrow> ('v, 'e) world" where
  "run options es = foldl step (new_world options) es"





text \<open>
  Well-formed worlds: the two tables have one entry per key, promise numbers are handed
  out once, and a settled promise is no longer in flight.
\<close>

definition wf_world :: "('v, 'e) world \<Rightarrow> bool" where
  "wf_world w =
     (distinct (map fst (pending (dedup w))) \<and> distinct (map fst (completed (dedup w)))
      \<and> distinct (map fst (inflight w)) \<and> distinct (map fst (settled w))
      \<and> list_all (\<lambda>(p, cb). p < nextPromise w) (inflight w)
      \<and> list_all (\<lambda>(p, out). p < nextPromise w \<and> map_of (inflight w) p = None) (settled w)
      \<and> list_all (\<lambda>(k, entry). promise entry < nextPromise w) (pending (dedup w)))"


section \<open>Notions for the statements about keys\<close>


text \<open>
  What the text of a finite number looks like: it starts with a digit or a minus sign and
  consists of digits, the decimal point, the exponent mark and signs. Every text that
  \<^verbatim>\<open>Number::toString\<close> prints for a finite number is of this form.
\<close>

definition number_char :: "char \<Rightarrow> bool" where
  "number_char c = (is_digit c \<or> c = CHR ''.'' \<or> c = CHR ''e'' \<or> c = CHR ''+'' \<or> c = CHR ''-'')"

definition number_text :: "string \<Rightarrow> bool" where
  "number_text t =
     (case t of [] \<Rightarrow> False | c # _ \<Rightarrow> (is_digit c \<or> c = CHR ''-'') \<and> list_all number_char t)"


text \<open>Values in which every object is a plain object.\<close>

fun plain :: "jsval \<Rightarrow> bool" where
  "plain (JArray xs) = (\<forall>x \<in> set xs. plain x)"
| "plain (JObject ps) = (\<forall>p \<in> set ps. plain (snd p))"
| "plain (JInstance str ps) = False"
| "plain v = True"


text \<open>
  The text \<^verbatim>\<open>JSON.stringify\<close> produces for JSON data, as a plain function (lemma
  \<open>Serialize_enc\<close>).
\<close>

fun enc :: "jsval \<Rightarrow> string"
  and enc_elems :: "jsval list \<Rightarrow> string list"
  and enc_props :: "(string \<times> jsval) list \<Rightarrow> string list" where
  "enc JUndefined = []"
| "enc JNull = ''null''"
| "enc (JBoolean b) = (if b then ''true'' else ''false'')"
| "enc (JNumber n) = (case n of Finite t \<Rightarrow> t | _ \<Rightarrow> ''null'')"
| "enc (JBigInt n) = []"
| "enc (JString s) = QuoteJSONString s"
| "enc (JSymbol d) = []"
| "enc (JArray xs) = ''['' @ join '','' (enc_elems xs) @ '']''"
| "enc (JObject ps) = ''{'' @ join '','' (enc_props ps) @ ''}''"
| "enc (JInstance str ps) = ''{'' @ join '','' (enc_props ps) @ ''}''"
| "enc_elems [] = []"
| "enc_elems (x # xs) = enc x # enc_elems xs"
| "enc_props [] = []"
| "enc_props (p # ps) = (QuoteJSONString (fst p) @ '':'' @ enc (snd p)) # enc_props ps"






section \<open>Example requests\<close>

definition order_request :: ExecuteOptions where
  "order_request = \<lparr>method = ''post'', url = ''/orders'', data = JObject [(''id'', JNumber (Finite ''1''))],
                     blockAfterComplete = Some 5000\<rparr>"

text \<open>The same order without a cool-down.\<close>

definition plain_order_request :: ExecuteOptions where
  "plain_order_request = order_request\<lparr>blockAfterComplete := None\<rparr>"

definition order_key :: string where
  "order_key = ''POST:/orders:{\"id\":1}''"

text \<open>Two calls for the same order while the first is in flight.\<close>

definition two_calls :: "(string, string) world" where
  "two_calls = run None [Execute order_request Returns 100, Execute order_request Returns 150]"

text \<open>The first call for the order, its operation in flight.\<close>

definition first_call :: "(string, string) world" where
  "first_call = run None [Execute order_request Returns 100]"

text \<open>The order has completed at 150 and nothing is pending.\<close>

definition after_completion :: "(string, string) world" where
  "after_completion =
     run None [Execute order_request Returns 100, Settle 0 (Fulfilled ''created'') 150]"

text \<open>The clock reads 0 when the order is placed and when it completes.\<close>

definition completed_at_zero :: "(string, string) world" where
  "completed_at_zero =
     run None [Execute order_request Returns 0, Settle 0 (Fulfilled ''created'') 0]"

text \<open>
  An order with a cool-down completes at 150; \<^verbatim>\<open>deduplicate\<close> launches the same key at 200.
\<close>

definition completed_then_pending :: "(string, string) world" where
  "completed_then_pending =
     run None [Execute order_request Returns 100, Settle 0 (Fulfilled ''created'') 150,
               Deduplicate order_key Returns 200]"



section \<open>Sweeping the tables\<close>

lemma delete_filter: "AList.delete k al = filter (\<lambda>p. fst p \<noteq> k) al"
  by (induction al) (auto simp: AList.delete_eq)

lemma sweep_list:
  "foldl (\<lambda>al (k, v). if P v then AList.delete k al else al) al xs
   = filter (\<lambda>p. \<not> (\<exists>t. (fst p, t) \<in> set xs \<and> P t)) al"
proof (induction xs arbitrary: al)
  case Nil
  show ?case by simp
next
  case (Cons x xs)
  obtain k t where x: "x = (k, t)" by (cases x)
  show ?case
  proof (cases "P t")
    case True
    then show ?thesis
      unfolding x by (simp add: Cons.IH delete_filter) (rule filter_cong; auto)
  next
    case False
    then show ?thesis
      unfolding x by (simp add: Cons.IH) (rule filter_cong; auto)
  qed
qed

lemma filter_own_entries:
  assumes "distinct (map fst al)"
  shows "filter (\<lambda>p. \<not> (\<exists>t. (fst p, t) \<in> set al \<and> P t)) al = filter (\<lambda>p. \<not> P (snd p)) al"
proof (rule filter_cong[OF refl])
  fix p assume p: "p \<in> set al"
  have "\<And>t. (fst p, t) \<in> set al \<Longrightarrow> t = snd p"
    using assms p by (metis eq_key_imp_eq_value prod.collapse)
  with p show "(\<not> (\<exists>t. (fst p, t) \<in> set al \<and> P t)) = (\<not> P (snd p))"
    by (metis prod.collapse)
qed

lemma sweep_own:
  assumes "distinct (map fst al)"
  shows "foldl (\<lambda>al (k, v). if P v then AList.delete k al else al) al al
         = filter (\<lambda>p. \<not> P (snd p)) al"
  unfolding sweep_list by (rule filter_own_entries[OF assms])

lemma sweep_completed:
  "foldl (\<lambda>d (key, completedTime).
            if P completedTime then d\<lparr>completed := AList.delete key (completed d)\<rparr> else d) d xs
   = d\<lparr>completed := foldl (\<lambda>al (k, v). if P v then AList.delete k al else al) (completed d) xs\<rparr>"
  by (induction xs arbitrary: d) auto

lemma sweep_pending:
  "foldl (\<lambda>d (key, entry).
            if now - startTime entry > requestTimeout d
            then d\<lparr>pending := AList.delete key (pending d)\<rparr> else d) d xs
   = d\<lparr>pending := foldl (\<lambda>al (k, v). if now - startTime v > requestTimeout d
                                      then AList.delete k al else al) (pending d) xs\<rparr>"
  by (induction xs arbitrary: d) auto

lemma cleanup_eq:
  assumes "distinct (map fst (completed d))" "distinct (map fst (pending d))"
  shows "cleanup m now d =
     d\<lparr>completed := filter (\<lambda>p. \<not> (now - snd p > (case m of Some a \<Rightarrow> a | None \<Rightarrow> 10000)))
                      (completed d),
       pending := filter (\<lambda>p. \<not> (now - startTime (snd p) > requestTimeout d)) (pending d)\<rparr>"
  unfolding cleanup_def Let_def sweep_completed sweep_pending
  by (simp add: sweep_own[OF assms(1)]
        sweep_own[OF assms(2), where P="\<lambda>e. now - startTime e > requestTimeout d"])

text \<open>
  C6. In a deduplicator whose tables hold one entry per key, \<^verbatim>\<open>cleanup(maxAge)\<close> at time
  \<open>now\<close> keeps of the Completed table exactly the records with \<open>now - completedTime \<le> maxAge\<close>
  (\<open>maxAge\<close> is 10000 when omitted) and removes the others, in place; it keeps of the Pending
  table exactly the entries with \<open>now - startTime \<le> requestTimeout\<close>, whatever \<open>maxAge\<close> is;
  it changes nothing else. The \<open>requestTimeout\<close> is the one given to the constructor, 30000
  when none is given.
\<close>

theorem cleanup_removes_exactly_the_expired:
  assumes "distinct (map fst (completed d))" and "distinct (map fst (pending d))"
  shows "completed (cleanup maxAge now d)
           = filter (\<lambda>(key, completedTime).
                \<not> now - completedTime > (case maxAge of Some a \<Rightarrow> a | None \<Rightarrow> 10000)) (completed d)
       \<and> pending (cleanup maxAge now d)
           = filter (\<lambda>(key, entry). \<not> now - startTime entry > requestTimeout d) (pending d)
       \<and> pending (cleanup maxAge now d) = pending (cleanup maxAge' now d)
       \<and> requestTimeout (cleanup maxAge now d) = requestTimeout d
       \<and> cleanupIntervalId (cleanup maxAge now d) = cleanupIntervalId d
       \<and> requestTimeout (new_RequestDeduplicator None) = 30000
       \<and> requestTimeout (new_RequestDeduplicator (Some t)) = t"
  by (simp add: cleanup_eq[OF assms] case_prod_unfold new_RequestDeduplicator_def)

theorem cleanup_removes_exactly_the_expired_witness:
  "distinct (map fst [(''GET:/a:'', 1000), (''GET:/b:'', 30000 :: int)])
   \<and> distinct (map fst [(''POST:/p:'', \<lparr>promise = 0, startTime = 1000\<rparr>),
                          (''POST:/q:'', \<lparr>promise = 1, startTime = 20000\<rparr>)])
   \<and> completed (cleanup None 35000
        \<lparr>pending = [(''POST:/p:'', \<lparr>promise = 0, startTime = 1000\<rparr>),
                    (''POST:/q:'', \<lparr>promise = 1, startTime = 20000\<rparr>)],
         completed = [(''GET:/a:'', 1000), (''GET:/b:'', 30000)],
         cleanupIntervalId = None, requestTimeout = 30000\<rparr>) = [(''GET:/b:'', 30000)]
   \<and> pending (cleanup None 35000
        \<lparr>pending = [(''POST:/p:'', \<lparr>promise = 0, startTime = 1000\<rparr>),
                    (''POST:/q:'', \<lparr>promise = 1, startTime = 20000\<rparr>)],
         completed = [(''GET:/a:'', 1000), (''GET:/b:'', 30000)],
         cleanupIntervalId = None, requestTimeout = 30000\<rparr>)
       = [(''POST:/q:'', \<lparr>promise = 1, startTime = 20000\<rparr>)]"
  using cleanup_removes_exactly_the_expired
    [of "\<lparr>pending = [(''POST:/p:'', \<lparr>promise = 0, startTime = 1000\<rparr>),
                    (''POST:/q:'', \<lparr>promise = 1, startTime = 20000\<rparr>)],
         completed = [(''GET:/a:'', 1000), (''GET:/b:'', 30000)],
         cleanupIntervalId = None, requestTimeout = 30000\<rparr>" None 35000 None 0]
  by simp

section \<open>Clearing\<close>

text \<open>
  C7. From every state, \<^verbatim>\<open>clear()\<close> empties both tables, so that \<^verbatim>\<open>getStats()\<close> right after
  it returns \<^verbatim>\<open>{pendingCount: 0, completedCount: 0}\<close>. It leaves the timer handle and the
  timeout as they are, and the timers that are running keep running: stopping after
  \<^verbatim>\<open>clear()\<close> stops what stopping before it would have stopped.
\<close>

theorem clear_empties_both_tables:
  "pending (clear d) = [] \<and> completed (clear d) = []
   \<and> getStats (clear d) = \<lparr>pendingCount = 0, completedCount = 0\<rparr>
   \<and> cleanupIntervalId (clear d) = cleanupIntervalId d
   \<and> requestTimeout (clear d) = requestTimeout d
   \<and> snd (stopAutoCleanup (clear d, timers)) = snd (stopAutoCleanup (d, timers))
   \<and> startAutoCleanup i t (clear (fst (startAutoCleanup i' t' (d, timers))),
                            snd (startAutoCleanup i' t' (d, timers)))
       = (clear (fst (startAutoCleanup i' t' (d, timers))), snd (startAutoCleanup i' t' (d, timers)))"
  by (simp add: clear_def getStats_def stopAutoCleanup_def startAutoCleanup_def Let_def
      split: option.splits)

section \<open>Evaluating the definitions\<close>

lemmas key_eval = generateKey_def toUpperCase_def upper_char_def dataKey_of_def JSON_stringify_def
  Object_keys_def obj_get_def obj_set_def is_index_def is_digit_def QuoteJSONString_def
  escape_char_def string_of_int_def template_def nat_of_digits_def hex_char_def digit_char_def
  string_of_nat.simps key_of_def
  Number_toString_def upper_in_range_def number_text_def number_char_def

lemmas example_eval = order_request_def order_key_def

section \<open>Calls and settlements, step by step\<close>

lemma execute_cases:
  "execute options requestFn now w =
     (case key_of options of
        Inl x \<Rightarrow> (Rejects (Uncaught x), w)
      | Inr key \<Rightarrow>
          if blocks (blockAfterComplete options)
             \<and> recently (map_of (completed (dedup w)) key) now (blockAfterComplete options)
          then (Rejects (DuplicateRequestError recently_completed), w)
          else (case map_of (pending (dedup w)) key of
                  Some existing \<Rightarrow> (Promise (promise existing), w)
                | None \<Rightarrow>
                    invoke key (ThenCatch key (blockAfterComplete options)) requestFn now w))"
  unfolding execute_def key_of_def by simp

lemma blocks_iff: "blocks b \<longleftrightarrow> (\<exists>n. b = Some n \<and> 0 < n)"
  by (auto simp: blocks_def truthy_def split: option.splits)

lemma recently_iff:
  "recently c now b \<longleftrightarrow> (\<exists>t n. c = Some t \<and> t \<noteq> 0 \<and> b = Some n \<and> now - t < n)"
  by (auto simp: recently_def truthy_def split: option.splits)

lemma map_of_fresh_append:
  "map_of al k = None \<Longrightarrow> map_of (al @ [(k, v)]) k = Some v"
  by (simp add: map_add_def)

lemma map_of_None_bound:
  "list_all (\<lambda>(p, x). p < (n::nat)) al \<Longrightarrow> map_of al n = None"
  by (induction al) (auto)


lemma list_all_update:
  "list_all (\<lambda>(k, x). P x) al \<Longrightarrow> P v \<Longrightarrow> list_all (\<lambda>(k, x). P x) (AList.update key v al)"
  by (induction al) auto


lemma list_all_mono:
  "list_all P al \<Longrightarrow> (\<And>x. P x \<Longrightarrow> Q x) \<Longrightarrow> list_all Q al"
  by (simp add: list_all_iff)






lemma run_callbacks_pending:
  "pending (fst (run_callbacks cb out now d)) = AList.delete (callbacks_key cb) (pending d)"
  by (cases "(cb, out, now, d)" rule: run_callbacks.cases) (auto simp: Let_def)

lemma run_callbacks_completed:
  "completed (fst (run_callbacks cb out now d)) =
     (case (cb, out) of
        (ThenCatch key b, Fulfilled v) \<Rightarrow>
          if blocks b then AList.update key now (completed d) else completed d
      | _ \<Rightarrow> completed d)"
  by (cases "(cb, out, now, d)" rule: run_callbacks.cases) (auto simp: Let_def)

lemma run_callbacks_other:
  "cleanupIntervalId (fst (run_callbacks cb out now d)) = cleanupIntervalId d"
  "requestTimeout (fst (run_callbacks cb out now d)) = requestTimeout d"
  by (cases "(cb, out, now, d)" rule: run_callbacks.cases; auto simp: Let_def)+

lemma run_callbacks_outcome: "snd (run_callbacks cb out now d) = out"
  by (cases "(cb, out, now, d)" rule: run_callbacks.cases) (auto simp: Let_def)

lemma settle_Some:
  "map_of (inflight w) p = Some cb \<Longrightarrow>
   settle p out now w = w\<lparr>dedup := fst (run_callbacks cb out now (dedup w)),
                          inflight := AList.delete p (inflight w),
                          settled := settled w @ [(p, out)]\<rparr>"
  using run_callbacks_outcome[of cb out now "dedup w"]
  by (simp add: settle_def case_prod_unfold)

























lemma outcome_settle:
  assumes "wf_world w" "map_of (inflight w) p = Some cb"
  shows "outcome_of p (settle p out now w) = Some out"
proof -
  have "map_of (settled w) p = None"
  proof (cases "map_of (settled w) p")
    case (Some x)
    then have "(p, x) \<in> set (settled w)" by (rule map_of_SomeD)
    then have "map_of (inflight w) p = None"
      using assms(1) unfolding wf_world_def list_all_iff by fastforce
    with assms(2) show ?thesis by simp
  qed simp
  then show ?thesis
    by (simp add: outcome_of_def settle_Some[OF assms(2)] map_add_def)
qed




lemma invoke_cases:
  "invoke key cb f start w =
     (case f of Throws e \<Rightarrow> (Rejects (Raised e), w\<lparr>invocations := invocations w @ [key]\<rparr>)
      | Returns \<Rightarrow> (Promise (nextPromise w), launch key cb start w))"
  by (simp add: invoke_def)

lemma launch_fields:
  "invocations (launch key cb start w) = invocations w @ [key]"
  "inflight (launch key cb start w) = inflight w @ [(nextPromise w, cb)]"
  "nextPromise (launch key cb start w) = Suc (nextPromise w)"
  "settled (launch key cb start w) = settled w"
  "completed (dedup (launch key cb start w)) = completed (dedup w)"
  "pending (dedup (launch key cb start w))
     = AList.update key \<lparr>promise = nextPromise w, startTime = start\<rparr> (pending (dedup w))"
  by (simp_all add: launch_def)

text \<open>What a call that invoked the operation and got a promise has done.\<close>

lemma execute_launched:
  assumes "key_of options = Inr key"
    and "execute options f start w = (Promise p, w1)" "invocations w1 \<noteq> invocations w"
  shows "f = Returns \<and> p = nextPromise w
       \<and> w1 = launch key (ThenCatch key (blockAfterComplete options)) start w
       \<and> map_of (pending (dedup w)) key = None
       \<and> \<not> (blocks (blockAfterComplete options)
            \<and> recently (map_of (completed (dedup w)) key) start (blockAfterComplete options))"
  using assms
  by (cases f) (auto simp: execute_cases invoke_cases split: if_splits option.splits)

lemma deduplicate_launched:
  assumes "deduplicate key f start w = (Promise p, w1)" "invocations w1 \<noteq> invocations w"
  shows "f = Returns \<and> p = nextPromise w \<and> w1 = launch key (Finally key) start w
       \<and> map_of (pending (dedup w)) key = None"
  using assms
  by (cases f) (auto simp: deduplicate_def invoke_cases split: if_splits option.splits)

lemma launch_inflight:
  assumes "wf_world w"
  shows "map_of (inflight (launch key cb start w)) (nextPromise w) = Some cb"
proof -
  have "map_of (inflight w) (nextPromise w) = None"
    using assms by (simp add: wf_world_def map_of_None_bound)
  then show ?thesis by (simp add: launch_fields map_add_def)
qed

lemma settle_fields:
  assumes "map_of (inflight w) p = Some cb"
  shows "pending (dedup (settle p out now w)) = AList.delete (callbacks_key cb) (pending (dedup w))"
    and "map_of (pending (dedup (settle p out now w))) (callbacks_key cb) = None"
    and "completed (dedup (settle p out now w)) =
          (case (cb, out) of
             (ThenCatch key b, Fulfilled v) \<Rightarrow>
               if blocks b then AList.update key now (completed (dedup w)) else completed (dedup w)
           | _ \<Rightarrow> completed (dedup w))"
    and "invocations (settle p out now w) = invocations w"
    and "nextPromise (settle p out now w) = nextPromise w"
    and "inflight (settle p out now w) = AList.delete p (inflight w)"
  by (simp_all add: settle_Some[OF assms] run_callbacks_pending run_callbacks_completed delete_conv')

lemma execute_rejects_iff:
  "fst (execute options f now w) = Rejects (DuplicateRequestError r) \<longleftrightarrow>
     r = recently_completed
     \<and> (\<exists>key n t. key_of options = Inr key \<and> blockAfterComplete options = Some n \<and> 0 < n
          \<and> map_of (completed (dedup w)) key = Some t \<and> t \<noteq> 0 \<and> now - t < n)"
  by (cases f; cases "key_of options")
     (auto simp: execute_cases invoke_cases blocks_iff recently_iff split: option.splits)

lemmas world_eval = run_def execute_cases new_world_def new_RequestDeduplicator_def
  blocks_def truthy_def recently_def invoke_def launch_def settle_def deduplicate_def

lemma order_request_key: "key_of order_request = Inr order_key"
  by (simp add: key_of_def key_eval example_eval)

lemma order_request_block: "blockAfterComplete order_request = Some 5000"
  by (simp add: order_request_def)

lemma key_of_blockAfterComplete:
  "key_of (options\<lparr>blockAfterComplete := b\<rparr>) = key_of options"
  by (simp add: key_of_def)

lemma plain_order_request_key: "key_of plain_order_request = Inr order_key"
  using order_request_key by (simp add: key_of_def plain_order_request_def)

lemma plain_order_request_block: "blockAfterComplete plain_order_request = None"
  by (simp add: plain_order_request_def)

lemmas order_eval = order_request_key order_request_block plain_order_request_key
  plain_order_request_block

lemma two_calls_eval:
  "two_calls =
     \<lparr>dedup = \<lparr>pending = [(order_key, \<lparr>promise = 0, startTime = 100\<rparr>)], completed = [],
               cleanupIntervalId = None, requestTimeout = 30000\<rparr>,
      inflight = [(0, ThenCatch order_key (Some 5000))], settled = [],
      nextPromise = 1, invocations = [order_key], intervals = []\<rparr>"
  by (simp add: two_calls_def world_eval order_eval)

lemma first_call_eval:
  "first_call =
     \<lparr>dedup = \<lparr>pending = [(order_key, \<lparr>promise = 0, startTime = 100\<rparr>)], completed = [],
               cleanupIntervalId = None, requestTimeout = 30000\<rparr>,
      inflight = [(0, ThenCatch order_key (Some 5000))], settled = [],
      nextPromise = 1, invocations = [order_key], intervals = []\<rparr>"
  by (simp add: first_call_def world_eval order_eval)

lemma after_completion_eval:
  "after_completion =
     \<lparr>dedup = \<lparr>pending = [], completed = [(order_key, 150)],
               cleanupIntervalId = None, requestTimeout = 30000\<rparr>,
      inflight = [], settled = [(0, Fulfilled ''created'')],
      nextPromise = 1, invocations = [order_key], intervals = []\<rparr>"
  by (simp add: after_completion_def world_eval order_eval)

lemma completed_at_zero_eval:
  "completed_at_zero =
     \<lparr>dedup = \<lparr>pending = [], completed = [(order_key, 0)],
               cleanupIntervalId = None, requestTimeout = 30000\<rparr>,
      inflight = [], settled = [(0, Fulfilled ''created'')],
      nextPromise = 1, invocations = [order_key], intervals = []\<rparr>"
  by (simp add: completed_at_zero_def world_eval order_eval)

lemma new_world_eval:
  "(new_world None :: (string, string) world) =
     \<lparr>dedup = \<lparr>pending = [], completed = [], cleanupIntervalId = None, requestTimeout = 30000\<rparr>,
      inflight = [], settled = [], nextPromise = 0, invocations = [], intervals = []\<rparr>"
  by (simp add: new_world_def new_RequestDeduplicator_def)

lemma completed_then_pending_eval:
  "completed_then_pending =
     \<lparr>dedup = \<lparr>pending = [(order_key, \<lparr>promise = 1, startTime = 200\<rparr>)],
               completed = [(order_key, 150)],
               cleanupIntervalId = None, requestTimeout = 30000\<rparr>,
      inflight = [(1, Finally order_key)], settled = [(0, Fulfilled ''created'')],
      nextPromise = 2, invocations = [order_key, order_key], intervals = []\<rparr>"
  by (simp add: completed_then_pending_def world_eval order_eval)

section \<open>One operation in flight\<close>








section \<open>Settlement of an operation launched by execute\<close>

text \<open>
  C4. Let an \<^verbatim>\<open>execute\<close> call invoke its operation and get promise \<open>p\<close>, and let the
  operation still be in flight, with the callbacks chained at the launch, in a later world
  \<open>w2\<close>. When it settles successfully there at time \<open>now\<close>, the Pending Entry of the key is
  removed, and the Completed table gets the record (key, \<open>now\<close>), created or overwritten,
  exactly when the launching call's \<^verbatim>\<open>blockAfterComplete\<close> is a positive number; when it
  is 0, negative or omitted the Completed table is left as it is.
\<close>

theorem execute_success_records_completion:
  assumes "wf_world w"
    and "key_of options = Inr key"
    and "execute options f start w = (Promise p, w1)"
    and "invocations w1 \<noteq> invocations w"
    and "map_of (inflight w2) p = map_of (inflight w1) p"
  shows "map_of (inflight w1) p = Some (ThenCatch key (blockAfterComplete options))
    \<and> pending (dedup (settle p (Fulfilled v) now w2)) = AList.delete key (pending (dedup w2))
    \<and> map_of (pending (dedup (settle p (Fulfilled v) now w2))) key = None
    \<and> completed (dedup (settle p (Fulfilled v) now w2))
        = (if (\<exists>n. blockAfterComplete options = Some n \<and> 0 < n)
           then AList.update key now (completed (dedup w2))
           else completed (dedup w2))
    \<and> (if (\<exists>n. blockAfterComplete options = Some n \<and> 0 < n)
        then map_of (completed (dedup (settle p (Fulfilled v) now w2))) key = Some now
        else map_of (completed (dedup (settle p (Fulfilled v) now w2))) key
             = map_of (completed (dedup w2)) key)"
proof -
  note l = execute_launched[OF assms(2,3,4)]
  have 1: "map_of (inflight w1) p = Some (ThenCatch key (blockAfterComplete options))"
    using l launch_inflight[OF assms(1)] by simp
  then have 2: "map_of (inflight w2) p = Some (ThenCatch key (blockAfterComplete options))"
    using assms(5) by simp
  show ?thesis
    using 1 settle_fields(1-3)[OF 2, of "Fulfilled v" now]
    by (auto simp: blocks_iff update_conv')
qed


theorem execute_success_records_completion_witness:
  "wf_world (new_world None :: (string, string) world)
   \<and> execute order_request Returns 100 (new_world None) = (Promise 0, first_call)
   \<and> invocations first_call \<noteq> invocations (new_world None :: (string, string) world)
   \<and> map_of (inflight first_call) 0 = Some (ThenCatch order_key (Some 5000))
   \<and> pending (dedup (settle 0 (Fulfilled ''created'') 150 first_call)) = []
   \<and> completed (dedup (settle 0 (Fulfilled ''created'') 150 first_call)) = [(order_key, 150)]"
  using execute_success_records_completion
    [of "new_world None :: (string, string) world" order_request order_key Returns 100 0
        first_call first_call "''created''" 150]
  by (simp add: first_call_eval new_world_eval order_eval world_eval wf_world_def)

text \<open>
  C5. When an operation in flight fails, whichever method launched it, the Pending Entry of
  its key is removed, the Completed table is left as it is, and the promise is rejected
  with the operation's own failure value. After an \<^verbatim>\<open>execute\<close> call launched an operation
  that then failed, the same options on a clock that has not gone back invoke the
  operation again: the retry is not rejected.
\<close>

theorem failure_leaves_no_completed_record:
  assumes "wf_world w2" and "map_of (inflight w2) p = Some cb"
    and "wf_world w"
    and "key_of options = Inr key"
    and "execute options f start w = (Promise q, w1)"
    and "invocations w1 \<noteq> invocations w"
    and "start \<le> now'"
  shows "pending (dedup (settle p (Rejected e) now w2))
           = AList.delete (callbacks_key cb) (pending (dedup w2))
    \<and> map_of (pending (dedup (settle p (Rejected e) now w2))) (callbacks_key cb) = None
    \<and> completed (dedup (settle p (Rejected e) now w2)) = completed (dedup w2)
    \<and> outcome_of p (settle p (Rejected e) now w2) = Some (Rejected e)
    \<and> snd (run_callbacks cb (Rejected e) now (dedup w2)) = Rejected e
    \<and> completed (dedup (settle q (Rejected e) now w1)) = completed (dedup w)
    \<and> execute options Returns now' (settle q (Rejected e) now w1)
        = (Promise (nextPromise w1),
           launch key (ThenCatch key (blockAfterComplete options)) now'
             (settle q (Rejected e) now w1))
    \<and> invocations (snd (execute options Returns now' (settle q (Rejected e) now w1)))
        = invocations w @ [key, key]"
proof -
  note l = execute_launched[OF assms(4,5,6)]
  have q: "map_of (inflight w1) q = Some (ThenCatch key (blockAfterComplete options))"
    using l launch_inflight[OF assms(3)] by simp
  have c: "completed (dedup (settle q (Rejected e) now w1)) = completed (dedup w)"
    using settle_fields(3)[OF q, of "Rejected e" now] l by (simp add: launch_fields)
  have notrecent: "\<not> (blocks (blockAfterComplete options)
      \<and> recently (map_of (completed (dedup w)) key) now' (blockAfterComplete options))"
    using l assms(7) unfolding recently_iff by fastforce
  have retry: "execute options Returns now' (settle q (Rejected e) now w1)
        = (Promise (nextPromise w1),
           launch key (ThenCatch key (blockAfterComplete options)) now'
             (settle q (Rejected e) now w1))"
    using notrecent settle_fields(2,5)[OF q, of "Rejected e" now]
    by (simp add: execute_cases assms(4) c invoke_cases)
  have inv: "invocations (settle q (Rejected e) now w1) = invocations w @ [key]"
    using settle_fields(4)[OF q, of "Rejected e" now] l by (simp add: launch_fields)
  show ?thesis
    using settle_fields(1-3)[OF assms(2), of "Rejected e" now] outcome_settle[OF assms(1,2)]
      c retry inv
    by (simp add: run_callbacks_outcome launch_fields split: callbacks.splits)
qed


theorem failure_leaves_no_completed_record_witness:
  "wf_world first_call
   \<and> map_of (inflight first_call) 0 = Some (ThenCatch order_key (Some 5000))
   \<and> wf_world (new_world None :: (string, string) world)
   \<and> execute order_request Returns 100 (new_world None) = (Promise 0, first_call)
   \<and> invocations first_call \<noteq> invocations (new_world None :: (string, string) world)
   \<and> (100 :: int) \<le> 160
   \<and> pending (dedup (settle 0 (Rejected ''timeout'') 150 first_call)) = []
   \<and> completed (dedup (settle 0 (Rejected ''timeout'') 150 first_call)) = []
   \<and> outcome_of 0 (settle 0 (Rejected ''timeout'') 150 first_call) = Some (Rejected ''timeout'')
   \<and> fst (execute order_request Returns 160 (settle 0 (Rejected ''timeout'') 150 first_call))
       = Promise 1
   \<and> invocations (snd (execute order_request Returns 160
         (settle 0 (Rejected ''timeout'') 150 first_call))) = [order_key, order_key]"
  using failure_leaves_no_completed_record
    [of first_call 0 "ThenCatch order_key (Some 5000)"
        "new_world None :: (string, string) world" order_request order_key Returns 100 0
        first_call 160 "''timeout''" 150]
  by (simp add: first_call_eval new_world_eval order_eval world_eval wf_world_def outcome_of_def)

section \<open>What deduplicate leaves alone\<close>

text \<open>
  C9. \<^verbatim>\<open>deduplicate\<close> neither reads nor writes the Completed table. The call leaves the
  table as it is, never rejects with a \<^verbatim>\<open>DuplicateRequestError\<close>, and does the same
  whatever the table holds. The operation it launches carries the \<open>Finally\<close> callback, and
  the settlement of such an operation, with any outcome, leaves the table as it is. So
  \<open>completedCount\<close> is the same before and after.
\<close>

theorem deduplicate_leaves_completed_alone:
  assumes "wf_world w"
  shows "completed (dedup (snd (deduplicate key f now w))) = completed (dedup w)
    \<and> fst (deduplicate key f now w) \<noteq> Rejects (DuplicateRequestError r)
    \<and> deduplicate key f now (w\<lparr>dedup := (dedup w)\<lparr>completed := c\<rparr>\<rparr>)
        = (fst (deduplicate key f now w),
           (snd (deduplicate key f now w))
             \<lparr>dedup := (dedup (snd (deduplicate key f now w)))\<lparr>completed := c\<rparr>\<rparr>)
    \<and> completedCount (getStats (dedup (snd (deduplicate key f now w))))
        = completedCount (getStats (dedup w))
    \<and> (invocations (snd (deduplicate key Returns now w)) \<noteq> invocations w \<longrightarrow>
         map_of (inflight (snd (deduplicate key Returns now w))) (nextPromise w) = Some (Finally key))
    \<and> (map_of (inflight w) p = Some (Finally key) \<longrightarrow>
         completed (dedup (settle p out now w)) = completed (dedup w)
         \<and> completedCount (getStats (dedup (settle p out now w)))
             = completedCount (getStats (dedup w)))"
proof -
  have a: "completed (dedup (snd (deduplicate key f now w))) = completed (dedup w)"
    by (cases f) (simp_all add: deduplicate_def invoke_cases launch_fields split: option.splits)
  have b: "fst (deduplicate key f now w) \<noteq> Rejects (DuplicateRequestError r)"
    by (cases f) (simp_all add: deduplicate_def invoke_cases split: option.splits)
  have c: "deduplicate key f now (w\<lparr>dedup := (dedup w)\<lparr>completed := c\<rparr>\<rparr>)
        = (fst (deduplicate key f now w),
           (snd (deduplicate key f now w))
             \<lparr>dedup := (dedup (snd (deduplicate key f now w)))\<lparr>completed := c\<rparr>\<rparr>)"
    by (cases f) (simp_all add: deduplicate_def invoke_cases launch_def split: option.splits)
  have d: "invocations (snd (deduplicate key Returns now w)) \<noteq> invocations w \<longrightarrow>
         map_of (inflight (snd (deduplicate key Returns now w))) (nextPromise w) = Some (Finally key)"
    using launch_inflight[OF assms, of key "Finally key" now]
    by (simp add: deduplicate_def invoke_cases split: option.splits)
  have e: "map_of (inflight w) p = Some (Finally key) \<longrightarrow>
         completed (dedup (settle p out now w)) = completed (dedup w)"
    using settle_fields(3)[of w p "Finally key" out now] by simp
  show ?thesis
    using a b c d e by (simp add: getStats_def)
qed

theorem deduplicate_leaves_completed_alone_witness:
  "wf_world after_completion
   \<and> map_of (completed (dedup after_completion)) order_key = Some 150
   \<and> deduplicate order_key Returns 200 after_completion = (Promise 1, completed_then_pending)
   \<and> completed (dedup completed_then_pending) = [(order_key, 150)]
   \<and> wf_world completed_then_pending
   \<and> map_of (inflight completed_then_pending) 1 = Some (Finally order_key)
   \<and> completed (dedup (settle 1 (Fulfilled ''again'') 300 completed_then_pending))
       = [(order_key, 150)]"
  using deduplicate_leaves_completed_alone
    [of after_completion order_key Returns 200 recently_completed "[]" 0 "Fulfilled ''again''"]
    deduplicate_leaves_completed_alone
    [of completed_then_pending order_key Returns 300 recently_completed "[]" 1
        "Fulfilled ''again''"]
  by (simp add: after_completion_eval completed_then_pending_eval world_eval wf_world_def)

section \<open>Attaching to a pending entry\<close>

text \<open>
  C10. When \<^verbatim>\<open>execute\<close> finds a Pending Entry for its key and is not rejected, it returns
  the entry's promise and leaves the world as it is, so a later settlement does what it
  would have done without the call. Another \<^verbatim>\<open>blockAfterComplete\<close> in the attaching
  options, if not rejected either, gives the same result. Whether the settlement of the
  shared operation writes a Completed Record depends on the callbacks chained by the call
  that registered the entry: on its \<^verbatim>\<open>blockAfterComplete\<close> when that call was an
  \<^verbatim>\<open>execute\<close>, and never when it was a \<^verbatim>\<open>deduplicate\<close>.
\<close>

theorem attaching_execute_changes_nothing:
  assumes "key_of options = Inr key"
    and "map_of (pending (dedup w)) key = Some existing"
    and "fst (execute options f now w) \<noteq> Rejects (DuplicateRequestError recently_completed)"
  shows "execute options f now w = (Promise (promise existing), w)
    \<and> settle p out t (snd (execute options f now w)) = settle p out t w
    \<and> (fst (execute (options\<lparr>blockAfterComplete := b\<rparr>) f now w)
           \<noteq> Rejects (DuplicateRequestError recently_completed) \<longrightarrow>
        execute (options\<lparr>blockAfterComplete := b\<rparr>) f now w = execute options f now w)
    \<and> (map_of (inflight w) (promise existing) = Some (ThenCatch key b0) \<longrightarrow>
        completed (dedup (settle (promise existing) (Fulfilled v) t (snd (execute options f now w))))
          = (if (\<exists>n. b0 = Some n \<and> 0 < n)
             then AList.update key t (completed (dedup w))
             else completed (dedup w)))
    \<and> (map_of (inflight w) (promise existing) = Some (Finally key) \<longrightarrow>
        completed (dedup (settle (promise existing) (Fulfilled v) t (snd (execute options f now w))))
          = completed (dedup w))"
proof -
  have a: "execute options f now w = (Promise (promise existing), w)"
    using assms by (simp add: execute_cases split: if_splits)
  have k: "key_of (options\<lparr>blockAfterComplete := b\<rparr>) = Inr key"
    using assms(1) by (simp add: key_of_def)
  have b: "fst (execute (options\<lparr>blockAfterComplete := b\<rparr>) f now w)
           \<noteq> Rejects (DuplicateRequestError recently_completed) \<longrightarrow>
        execute (options\<lparr>blockAfterComplete := b\<rparr>) f now w = execute options f now w"
    using assms(1,2) a by (simp add: execute_cases k split: if_splits)
  have c: "map_of (inflight w) (promise existing) = Some (ThenCatch key b0) \<longrightarrow>
        completed (dedup (settle (promise existing) (Fulfilled v) t w))
          = (if (\<exists>n. b0 = Some n \<and> 0 < n)
             then AList.update key t (completed (dedup w))
             else completed (dedup w))"
    using settle_fields(3)[of w "promise existing" "ThenCatch key b0" "Fulfilled v" t]
    by (simp add: blocks_iff)
  have d: "map_of (inflight w) (promise existing) = Some (Finally key) \<longrightarrow>
        completed (dedup (settle (promise existing) (Fulfilled v) t w)) = completed (dedup w)"
    using settle_fields(3)[of w "promise existing" "Finally key" "Fulfilled v" t]
    by simp
  show ?thesis using a b c d by simp
qed

theorem attaching_execute_changes_nothing_witness:
  "key_of plain_order_request = Inr order_key
   \<and> map_of (pending (dedup first_call)) order_key = Some \<lparr>promise = 0, startTime = 100\<rparr>
   \<and> execute plain_order_request Returns 120 first_call = (Promise 0, first_call)
   \<and> execute (plain_order_request\<lparr>blockAfterComplete := Some 5000\<rparr>) Returns 120 first_call
       = (Promise 0, first_call)
   \<and> map_of (inflight first_call) 0 = Some (ThenCatch order_key (Some 5000))
   \<and> completed (dedup (settle 0 (Fulfilled ''created'') 150
         (snd (execute plain_order_request Returns 120 first_call)))) = [(order_key, 150)]
   \<and> map_of (pending (dedup completed_then_pending)) order_key
       = Some \<lparr>promise = 1, startTime = 200\<rparr>
   \<and> execute plain_order_request Returns 220 completed_then_pending
       = (Promise 1, completed_then_pending)
   \<and> map_of (inflight completed_then_pending) 1 = Some (Finally order_key)
   \<and> completed (dedup (settle 1 (Fulfilled ''again'') 250
         (snd (execute plain_order_request Returns 220 completed_then_pending))))
       = [(order_key, 150)]"
  using attaching_execute_changes_nothing
    [of plain_order_request order_key first_call
        "\<lparr>promise = 0, startTime = 100\<rparr>" Returns 120 0 "Fulfilled ''created''" 150
        "Some 5000" "Some 5000" "''created''"]
    attaching_execute_changes_nothing
    [of plain_order_request order_key completed_then_pending
        "\<lparr>promise = 1, startTime = 200\<rparr>" Returns 220 1 "Fulfilled ''again''" 250
        None None "''again''"]
  by (simp add: first_call_eval completed_then_pending_eval order_eval world_eval
      key_of_blockAfterComplete)

section \<open>The cool-down check\<close>

text \<open>
  C2, at a record completed at time 0. The order is placed and completes while the clock
  reads 0, so the Completed table holds the record (key, 0). At time 2000 the record's age
  is 2000, below the 5000 of \<^verbatim>\<open>blockAfterComplete\<close>, yet \<^verbatim>\<open>execute\<close> does not reject: the
  test \<^verbatim>\<open>completedTime && ...\<close> takes the timestamp 0 for a missing record, and the
  operation is invoked a second time.
\<close>

theorem execute_overlooks_record_completed_at_zero:
  "key_of order_request = Inr order_key
   \<and> map_of (completed (dedup completed_at_zero)) order_key = Some 0
   \<and> blockAfterComplete order_request = Some 5000
   \<and> (2000 :: int) - 0 < 5000
   \<and> fst (execute order_request Returns 2000 completed_at_zero) = Promise 1
   \<and> invocations (snd (execute order_request Returns 2000 completed_at_zero))
       = [order_key, order_key]"
  by (simp add: completed_at_zero_eval order_eval world_eval)

text \<open>
  For every other timestamp the check is the one the specification describes, and no
  other \<^verbatim>\<open>DuplicateRequestError\<close> is raised (lemma \<open>execute_rejects_iff\<close>).
\<close>

section \<open>Canonical keys\<close>

subsection \<open>The object that sortObjectKeys builds\<close>

lemma insert_index_map_of:
  "k \<notin> fst ` set r \<Longrightarrow> map_of (insert_index k v r) = (map_of r)(k \<mapsto> v)"
proof (induction r)
  case Nil
  show ?case by simp
next
  case (Cons p ps)
  then have "k \<noteq> fst p" by auto
  with Cons show ?case by (cases p) (auto simp: fun_upd_twist)
qed

lemma insert_index_keys: "fst ` set (insert_index k v r) = insert k (fst ` set r)"
  by (induction r) auto

lemma insert_index_distinct:
  "distinct (map fst r) \<Longrightarrow> k \<notin> fst ` set r \<Longrightarrow> distinct (map fst (insert_index k v r))"
proof (induction r)
  case Nil
  show ?case by simp
next
  case (Cons p ps)
  then show ?case using insert_index_keys[of k v ps] by auto
qed

lemma map_of_append_fresh:
  "k \<notin> fst ` set r \<Longrightarrow> map_of (r @ [(k, v)]) = (map_of r)(k \<mapsto> v)"
  by (induction r) (auto simp: fun_upd_twist)

lemma obj_set_map_of:
  "map_of (obj_set r k v) = (if k = ''__proto__'' then map_of r else (map_of r)(k \<mapsto> v))"
  unfolding obj_set_def
  by (simp add: update_conv' insert_index_map_of map_of_append_fresh
        del: fun_upd_apply map_of_append)


lemma obj_set_distinct:
  "distinct (map fst r) \<Longrightarrow> distinct (map fst (obj_set r k v))"
  unfolding obj_set_def
  by (auto simp: distinct_update insert_index_distinct)

lemma fold_obj_set_map_of:
  "map_of (foldl (\<lambda>result key. obj_set result key (g key)) r ks)
     = (\<lambda>k. if k \<in> set ks \<and> k \<noteq> ''__proto__'' then Some (g k) else map_of r k)"
proof (induction ks rule: rev_induct)
  case Nil
  show ?case by simp
next
  case (snoc k ks)
  show ?case by (rule ext) (simp add: snoc obj_set_map_of)
qed

lemma fold_obj_set_distinct:
  "distinct (map fst r) \<Longrightarrow> distinct (map fst (foldl (\<lambda>result key. obj_set result key (g key)) r ks))"
  by (induction ks rule: rev_induct) (simp_all add: obj_set_distinct)

















subsection \<open>Numbers can be read back\<close>






subsection \<open>Quoted strings can be read back\<close>












subsection \<open>Values can be read back\<close>

lemma enc_elems_Nil [simp]: "enc_elems xs = [] \<longleftrightarrow> xs = []"
  by (cases xs) simp_all

lemma enc_props_Nil [simp]: "enc_props ps = [] \<longleftrightarrow> ps = []"
  by (cases ps) simp_all













lemma fold_obj_set_values:
  assumes "p \<in> set (foldl (\<lambda>result key. obj_set result key (g key)) [] ks)"
  shows "\<exists>k \<in> set ks. snd p = g k"
proof -
  let ?rs = "foldl (\<lambda>result key. obj_set result key (g key)) [] ks"
  have "distinct (map fst ?rs)" by (simp add: fold_obj_set_distinct)
  with assms have "map_of ?rs (fst p) = Some (snd p)" by simp
  then have "fst p \<in> set ks \<and> g (fst p) = snd p"
    unfolding fold_obj_set_map_of by (simp split: if_splits)
  then show ?thesis by (intro bexI[of _ "fst p"]) simp_all
qed

lemma sortObjectKeys_plain: "plain (sortObjectKeys a)"
proof (induction a rule: sortObjectKeys.induct)
  case (9 rcd)
  have "plain (snd p)"
    if "p \<in> set (foldl (\<lambda>result key. obj_set result key (sortObjectKeys (obj_get rcd key)))
                     [] (sort (Object_keys rcd)))" for p
    using fold_obj_set_values[OF that] "9.IH" by auto
  then show ?case by simp
next
  case (10 str rcd)
  have "plain (snd p)"
    if "p \<in> set (foldl (\<lambda>result key. obj_set result key (sortObjectKeys (obj_get rcd key)))
                     [] (sort (Object_keys rcd)))" for p
    using fold_obj_set_values[OF that] "10.IH" by auto
  then show ?case by simp
qed simp_all



subsection \<open>The key of a request\<close>

lemma generateKey_cases:
  "generateKey m u d =
     (case dataKey_of d of
        Inl x \<Rightarrow> Inl x
      | Inr dataKey \<Rightarrow> Inr (toUpperCase m @ '':'' @ u @ '':'' @ dataKey))"
  by (simp add: generateKey_def)



text \<open>Upper-casing beyond the ASCII letters: an accented letter, the sharp s, the division sign.\<close>

lemma toUpperCase_examples:
  "toUpperCase ''post'' = ''POST''
   \<and> toUpperCase [CHR 0xE9, CHR 0xDF, CHR 0xF7] = [CHR 0xC9, CHR ''S'', CHR ''S'', CHR 0xF7]"
  by (simp add: toUpperCase_def upper_char_def)




subsection \<open>When the fallback itself raises\<close>

text \<open>
  C8, at a payload for which both the serialization and the fallback raise. The object
  \<^verbatim>\<open>{toString: "x", id: 10n}\<close> holds a BigInt, so \<^verbatim>\<open>JSON.stringify\<close> raises a \<^verbatim>\<open>TypeError\<close>
  and the \<^verbatim>\<open>catch\<close> block runs; its own property \<^verbatim>\<open>toString\<close> is not callable, so
  \<^verbatim>\<open>String(data)\<close> raises a \<^verbatim>\<open>TypeError\<close> too. It leaves \<^verbatim>\<open>generateKey\<close>, and \<^verbatim>\<open>execute\<close>
  rejects with it without looking at its tables.
\<close>

theorem generateKey_raises_when_String_raises:
  "JSON_stringify (sortObjectKeys (JObject [(''toString'', JString ''x''), (''id'', JBigInt 10)]))
     = Inl TypeError
   \<and> ToString (JObject [(''toString'', JString ''x''), (''id'', JBigInt 10)]) = Inl TypeError
   \<and> generateKey ''post'' ''/orders'' (JObject [(''toString'', JString ''x''), (''id'', JBigInt 10)])
       = Inl TypeError
   \<and> execute \<lparr>method = ''post'', url = ''/orders'',
               data = JObject [(''toString'', JString ''x''), (''id'', JBigInt 10)],
               blockAfterComplete = None\<rparr> Returns 100 (new_world None :: (string, string) world)
       = (Rejects (Uncaught TypeError), new_world None)"
  by (simp add: key_eval execute_cases)

text \<open>
  Apart from that case \<^verbatim>\<open>generateKey\<close> returns a key: it raises only when the
  serialization and \<^verbatim>\<open>String(data)\<close> both raise.
\<close>

lemma generateKey_returns_unless_String_raises:
  "(\<exists>key. generateKey m u d = Inr key)
   \<or> (\<exists>x y. d \<noteq> JUndefined \<and> JSON_stringify (sortObjectKeys d) = Inl x
        \<and> ToString d = Inl y \<and> generateKey m u d = Inl y)"
  by (auto simp: generateKey_def dataKey_of_def split: sum.splits)

lemma generateKey_falls_back:
  "d \<noteq> JUndefined \<Longrightarrow> JSON_stringify (sortObjectKeys d) = Inl x \<Longrightarrow> ToString d = Inr s
   \<Longrightarrow> generateKey m u d = Inr (toUpperCase m @ '':'' @ u @ '':'' @ s)"
  by (simp add: generateKey_def dataKey_of_def)

end
